theory Spec2Isabelle
  imports Main
begin

section \<open>JavaScript values\<close>

text \<open>
  The widget is a JavaScript class, so the data it reads from its configuration and from
  the parsed cache is dynamically typed. \<open>jsval\<close> holds the values that JSON data can
  take, plus \<open>undefined\<close> (what reading a missing property gives). Numbers are the
  integral ones (\<open>Date.now()\<close> milliseconds, counts, sizes); an object is an association
  list in which the first binding of a key is the one that is read.
\<close>

datatype jsval =
    JUndefined
  | JNull
  | JBool bool
  | JNum int
  | JStr string
  | JArr "jsval list"
  | JObj "(string \<times> jsval) list"

text \<open>The result of an arithmetic coercion: a number or \<open>NaN\<close>.\<close>

datatype jsnum = Num int | NaN

text \<open>The value of \<open>a + b\<close> when \<open>b\<close> is a number: numeric addition or concatenation.\<close>

datatype jsprim = PNum jsnum | PStr string

datatype js_error = Error string | TypeError | SyntaxError | QuotaExceededError

text \<open>\<open>if (v)\<close>, \<open>!v\<close>, \<open>v ? a : b\<close>: the truthiness of a value.\<close>

fun truthy :: "jsval \<Rightarrow> bool" where
  "truthy JUndefined = False"
| "truthy JNull = False"
| "truthy (JBool b) = b"
| "truthy (JNum n) = (n \<noteq> 0)"
| "truthy (JStr s) = (s \<noteq> [])"
| "truthy (JArr xs) = True"
| "truthy (JObj kvs) = True"

text \<open>\<open>typeof v === 'object'\<close>; it holds of \<open>null\<close> as well.\<close>

fun typeof_object :: "jsval \<Rightarrow> bool" where
  "typeof_object JNull = True"
| "typeof_object (JArr xs) = True"
| "typeof_object (JObj kvs) = True"
| "typeof_object v = False"

text \<open>
  \<open>v.k\<close> and the destructuring \<open>const {k} = v\<close>, for the property names the class reads
  this way (\<open>id\<close>, \<open>title\<close>, \<open>url\<close>, \<open>videos\<close>, \<open>timestamp\<close>), none of which is a
  built-in member of a string, number, boolean or array: reading from \<open>undefined\<close> or
  \<open>null\<close> throws a TypeError, reading a missing property gives \<open>undefined\<close>.
\<close>

fun get_prop :: "jsval \<Rightarrow> string \<Rightarrow> js_error + jsval" where
  "get_prop JUndefined k = Inl TypeError"
| "get_prop JNull k = Inl TypeError"
| "get_prop (JObj kvs) k = Inr (case map_of kvs k of Some v \<Rightarrow> v | None \<Rightarrow> JUndefined)"
| "get_prop v k = Inr JUndefined"

text \<open>
  Decimal notation, as a template literal prints an integral number (one below
  \<open>10^21\<close> in absolute value; the numbers of the widget are milliseconds and sizes).
\<close>

definition digit_char :: "nat \<Rightarrow> char" where
  "digit_char d = ''0123456789'' ! d"

function decimal :: "nat \<Rightarrow> string" where
  "decimal n = (if 10 \<le> n then decimal (n div 10) @ [digit_char (n mod 10)] else [digit_char n])"
  by pat_completeness auto
termination
  by (relation "measure (\<lambda>n. n)") auto

declare decimal.simps [simp del]

definition number_text :: "int \<Rightarrow> string" where
  "number_text i = (if 0 \<le> i then decimal (nat i) else CHR ''-'' # decimal (nat (- i)))"

text \<open>\<open>Array.prototype.join(',')\<close> on strings already converted.\<close>

fun join_comma :: "string list \<Rightarrow> string" where
  "join_comma [] = []"
| "join_comma [s] = s"
| "join_comma (s # t # ss) = s @ '','' @ join_comma (t # ss)"

text \<open>
  \<open>`${v}`\<close>: the string a template literal substitutes for a value. An array prints its
  elements separated by commas, \<open>null\<close> and \<open>undefined\<close> elements as nothing; a plain
  object prints as \<open>[object Object]\<close>.
\<close>

fun to_string :: "jsval \<Rightarrow> string" where
  "to_string JUndefined = ''undefined''"
| "to_string JNull = ''null''"
| "to_string (JBool b) = (if b then ''true'' else ''false'')"
| "to_string (JNum n) = number_text n"
| "to_string (JStr s) = s"
| "to_string (JArr xs) =
     join_comma (map (\<lambda>x. if x = JUndefined \<or> x = JNull then [] else to_string x) xs)"
| "to_string (JObj kvs) = ''[object Object]''"

section \<open>Configuration and records\<close>

text \<open>
  The options of the constructor, with the types its defaults document. \<open>fallbackVideos\<close>
  stays a \<open>jsval\<close>: it is read from a JSON file and the composer inspects its shape.
\<close>

record options =
  apiKey :: string
  channelId :: string
  channelUsername :: string
  maxResults :: int
  containerSelector :: string
  cacheExpiration :: int
  featuredVideo :: bool
  fallbackVideos :: jsval

text \<open>
  A video record as \<open>fetchVideos\<close> and \<open>createFallbackVideos\<close> build it; \<open>publishedAt\<close>
  is the millisecond value of the \<open>Date\<close> object. A record built from the API has no
  \<open>url\<close> property (\<open>JUndefined\<close>).
\<close>

record video =
  v_id :: jsval
  v_title :: jsval
  v_description :: jsval
  v_thumbnail :: jsval
  v_publishedAt :: int
  v_channelTitle :: jsval
  v_url :: jsval

text \<open>
  The instance the constructor builds: \<open>container\<close> is whether
  \<open>document.querySelector(containerSelector)\<close> found an element.
\<close>

record widget =
  opts :: options
  container :: bool
  cacheKey :: string

definition or_str :: "string \<Rightarrow> string \<Rightarrow> string" where
  "or_str a b = (if a \<noteq> [] then a else b)"

definition constructor :: "(string \<Rightarrow> bool) \<Rightarrow> options \<Rightarrow> widget" where
  "constructor querySelector os =
     \<lparr> opts = os,
       container = querySelector (containerSelector os),
       cacheKey = ''youtube-videos-'' @ or_str (channelId os) (channelUsername os) \<rparr>"

section \<open>The fallback composer\<close>

text \<open>Sequencing of steps that may throw: the first error ends the computation.\<close>

definition bind_err :: "js_error + 'a \<Rightarrow> ('a \<Rightarrow> js_error + 'b) \<Rightarrow> js_error + 'b" where
  "bind_err r f = (case r of Inl e \<Rightarrow> Inl e | Inr x \<Rightarrow> f x)"

text \<open>
  The three constants of the callback of \<open>fallbackVideos.map\<close>, at entry \<open>video\<close> and
  index \<open>index\<close>, and the record it returns.
\<close>

definition videoId_of :: "jsval \<Rightarrow> js_error + jsval" where
  "videoId_of video = (if typeof_object video then get_prop video ''id'' else Inr video)"

definition videoTitle_of :: "jsval \<Rightarrow> nat \<Rightarrow> js_error + jsval" where
  "videoTitle_of video index =
     (if typeof_object video
      then bind_err (get_prop video ''title'') (\<lambda>t.
             Inr (if truthy t then t else JStr (''Video '' @ decimal (index + 1))))
      else Inr (JStr (''Video '' @ decimal (index + 1))))"

definition videoUrl_of :: "jsval \<Rightarrow> jsval \<Rightarrow> js_error + jsval" where
  "videoUrl_of video videoId =
     (if typeof_object video
      then bind_err (get_prop video ''url'') (\<lambda>u.
             Inr (if truthy u then u
                  else JStr (''https://www.youtube.com/watch?v='' @ to_string videoId)))
      else Inr (JStr (''https://www.youtube.com/watch?v='' @ to_string videoId)))"

definition fallback_video :: "int \<Rightarrow> jsval \<Rightarrow> nat \<Rightarrow> js_error + video" where
  "fallback_video now video index =
     bind_err (videoId_of video) (\<lambda>videoId.
     bind_err (videoTitle_of video index) (\<lambda>videoTitle.
     bind_err (videoUrl_of video videoId) (\<lambda>videoUrl.
       Inr \<lparr> v_id = videoId,
             v_title = videoTitle,
             v_description = JStr [],
             v_thumbnail = JObj
               [(''url'', JStr (''https://i.ytimg.com/vi/'' @ to_string videoId
                                @ ''/hqdefault.jpg'')),
                (''width'', JNum 480),
                (''height'', JNum 360)],
             v_publishedAt = now,
             v_channelTitle = JStr ''Alaan TV Channel'',
             v_url = videoUrl \<rparr>)))"

text \<open>\<open>Array.prototype.map\<close> with a callback that may throw: the first throw ends it.\<close>

fun map_from :: "int \<Rightarrow> nat \<Rightarrow> jsval list \<Rightarrow> js_error + video list" where
  "map_from now i [] = Inr []"
| "map_from now i (x # xs) =
     bind_err (fallback_video now x i) (\<lambda>r.
     bind_err (map_from now (Suc i) xs) (\<lambda>rs. Inr (r # rs)))"

text \<open>
  \<open>createFallbackVideos()\<close>; \<open>now\<close> is the clock that \<open>new Date()\<close> reads. A falsy
  \<open>fallbackVideos\<close> or one whose \<open>length\<close> is \<open>0\<close> gives the empty list. Otherwise
  \<open>fallbackVideos.map\<close> is called: on an array it runs the callback; a string, a number,
  \<open>true\<close> or a plain object has no \<open>map\<close> function and the call throws a TypeError.
\<close>

definition createFallbackVideos :: "widget \<Rightarrow> int \<Rightarrow> js_error + video list" where
  "createFallbackVideos w now =
     (let fv = fallbackVideos (opts w) in
      if \<not> truthy fv then Inr []
      else case fv of
             JArr xs \<Rightarrow> if length xs = 0 then Inr [] else map_from now 0 xs
           | JObj kvs \<Rightarrow> if map_of kvs ''length'' = Some (JNum 0) then Inr [] else Inl TypeError
           | _ \<Rightarrow> Inl TypeError)"

section \<open>The browser, the store and the effects of a run\<close>

text \<open>
  What the page supplies to one run of \<open>init()\<close>: the \<open>JSON\<close> functions (parsing may
  throw a SyntaxError; \<open>JSON_stringify W videos timestamp\<close> is the text of
  \<open>{videos, timestamp}\<close>), the conversion of a string to a number that a comparison
  applies, whether \<open>localStorage.setItem\<close> throws (quota exceeded), the clock when
  \<open>init()\<close> runs and when the promise of \<open>fetchVideos()\<close> settles, and how that promise
  settles: rejected with an error, or resolved with the records built from the response.
  Every network request of the class is made inside \<open>fetchVideos()\<close>.
\<close>

record world =
  JSON_parse :: "string \<Rightarrow> js_error + jsval"
  JSON_stringify :: "video list \<Rightarrow> int \<Rightarrow> string"
  StringToNumber :: "string \<Rightarrow> jsnum"
  setItem_throws :: bool
  now_init :: int
  now_settled :: int
  fetch_outcome :: "js_error + video list"

text \<open>\<open>localStorage\<close>: string keys, string values.\<close>

type_synonym storage = "string \<rightharpoonup> string"

text \<open>What \<open>renderVideos\<close> is given: records built in this run, or the parsed cache.\<close>

datatype feed = Records "video list" | Cached jsval

text \<open>
  The effects of a run, in the order they happen: console output, calls of the store,
  the call of \<open>fetchVideos()\<close>, the three views, and a rejection that no handler takes.
\<close>

datatype event =
    ConsoleError string
  | ConsoleLog string
  | GetItem string
  | SetItem string string
  | RemoveItem string
  | ShowLoading
  | FetchVideos
  | RenderVideos feed
  | ShowError string
  | UnhandledRejection js_error

section \<open>The cache\<close>

text \<open>\<open>timestamp + n\<close> for a number \<open>n\<close>: addition, or concatenation once a side is a string.\<close>

fun js_plus :: "jsval \<Rightarrow> int \<Rightarrow> jsprim" where
  "js_plus JUndefined n = PNum NaN"
| "js_plus JNull n = PNum (Num n)"
| "js_plus (JBool b) n = PNum (Num ((if b then 1 else 0) + n))"
| "js_plus (JNum t) n = PNum (Num (t + n))"
| "js_plus (JStr s) n = PStr (s @ number_text n)"
| "js_plus (JArr xs) n = PStr (to_string (JArr xs) @ number_text n)"
| "js_plus (JObj kvs) n = PStr (to_string (JObj kvs) @ number_text n)"

text \<open>\<open>now > x\<close> for a number \<open>now\<close>: false whenever \<open>x\<close> converts to \<open>NaN\<close>.\<close>

definition js_gt :: "(string \<Rightarrow> jsnum) \<Rightarrow> int \<Rightarrow> jsprim \<Rightarrow> bool" where
  "js_gt stn now x =
     (case (case x of PNum m \<Rightarrow> m | PStr s \<Rightarrow> stn s) of
        Num m \<Rightarrow> now > m
      | NaN \<Rightarrow> False)"

text \<open>
  \<open>getFromCache()\<close> at clock \<open>now\<close>: the value it returns (\<open>JNull\<close> for \<open>null\<close>), the
  store afterwards and its effects. The \<open>try\<close> block covers the parse and the
  destructuring; its \<open>catch\<close> logs and returns \<open>null\<close>.
\<close>

definition getFromCache :: "world \<Rightarrow> widget \<Rightarrow> int \<Rightarrow> storage \<Rightarrow> jsval \<times> storage \<times> event list" where
  "getFromCache W w now st =
     (case st (cacheKey w) of
        None \<Rightarrow> (JNull, st, [GetItem (cacheKey w)])
      | Some cacheData \<Rightarrow>
          if cacheData = [] then (JNull, st, [GetItem (cacheKey w)])
          else
            (case bind_err (JSON_parse W cacheData) (\<lambda>d.
                  bind_err (get_prop d ''videos'') (\<lambda>videos.
                  bind_err (get_prop d ''timestamp'') (\<lambda>timestamp.
                    Inr (videos, timestamp)))) of
               Inl e \<Rightarrow>
                 (JNull, st, [GetItem (cacheKey w), ConsoleError ''Error getting from cache:''])
             | Inr (videos, timestamp) \<Rightarrow>
                 (let expirationTime = js_plus timestamp (cacheExpiration (opts w) * 1000) in
                  if js_gt (StringToNumber W) now expirationTime
                  then (JNull, st(cacheKey w := None),
                        [GetItem (cacheKey w), RemoveItem (cacheKey w)])
                  else (videos, st, [GetItem (cacheKey w)]))))"

text \<open>\<open>saveToCache(videos)\<close> at clock \<open>now\<close>: a throwing \<open>setItem\<close> is logged, nothing more.\<close>

definition saveToCache :: "world \<Rightarrow> widget \<Rightarrow> video list \<Rightarrow> int \<Rightarrow> storage \<Rightarrow> storage \<times> event list" where
  "saveToCache W w videos now st =
     (let cacheData = JSON_stringify W videos now in
      if setItem_throws W
      then (st, [SetItem (cacheKey w) cacheData, ConsoleError ''Error saving to cache:''])
      else (st(cacheKey w \<mapsto> cacheData), [SetItem (cacheKey w) cacheData]))"

section \<open>The pipeline\<close>

text \<open>
  The two handlers of \<open>fetchVideos().then(...).catch(...)\<close>. Each returns the error it
  throws, if any, the store afterwards and its effects. The views (\<open>renderVideos\<close>,
  \<open>showLoading\<close>, \<open>showError\<close>) are effects that complete.
\<close>

definition on_resolved :: "world \<Rightarrow> widget \<Rightarrow> video list \<Rightarrow> storage \<Rightarrow> js_error option \<times> storage \<times> event list" where
  "on_resolved W w videos st =
     (if length videos > 0
      then (case saveToCache W w videos (now_settled W) st of
              (st', ev) \<Rightarrow> (None, st', ev @ [RenderVideos (Records videos)]))
      else (case createFallbackVideos w (now_settled W) of
              Inl e \<Rightarrow> (Some e, st, [])
            | Inr fallback \<Rightarrow>
                if length fallback > 0
                then (None, st, [ConsoleLog ''Using fallback videos'',
                                 RenderVideos (Records fallback)])
                else (None, st, [ShowError ''No videos found''])))"

definition on_rejected :: "world \<Rightarrow> widget \<Rightarrow> js_error \<Rightarrow> storage \<Rightarrow> js_error option \<times> storage \<times> event list" where
  "on_rejected W w error st =
     (case createFallbackVideos w (now_settled W) of
        Inl e \<Rightarrow> (Some e, st, [ConsoleError ''Error fetching YouTube videos:''])
      | Inr fallback \<Rightarrow>
          if length fallback > 0
          then (None, st, [ConsoleError ''Error fetching YouTube videos:'',
                           ConsoleLog ''Using fallback videos due to API error'',
                           RenderVideos (Records fallback)])
          else (None, st, [ConsoleError ''Error fetching YouTube videos:'',
                           ShowError ''Failed to load videos'']))"

text \<open>
  The \<open>catch\<close> handler ends the chain: what it throws is an unhandled rejection. It takes
  a rejection of \<open>fetchVideos()\<close> and also whatever the \<open>then\<close> handler throws.
\<close>

definition run_catch :: "world \<Rightarrow> widget \<Rightarrow> js_error \<Rightarrow> storage \<Rightarrow> storage \<times> event list" where
  "run_catch W w error st =
     (case on_rejected W w error st of
        (None, st', ev) \<Rightarrow> (st', ev)
      | (Some e, st', ev) \<Rightarrow> (st', ev @ [UnhandledRejection e]))"

definition settle :: "world \<Rightarrow> widget \<Rightarrow> storage \<Rightarrow> storage \<times> event list" where
  "settle W w st =
     (case fetch_outcome W of
        Inr videos \<Rightarrow>
          (case on_resolved W w videos st of
             (None, st', ev) \<Rightarrow> (st', ev)
           | (Some e, st', ev) \<Rightarrow>
               (case run_catch W w e st' of (st'', ev') \<Rightarrow> (st'', ev @ ev')))
      | Inl error \<Rightarrow> run_catch W w error st)"

text \<open>\<open>init()\<close>: the store after the run and the effects of the run, in order.\<close>

definition init :: "world \<Rightarrow> widget \<Rightarrow> storage \<Rightarrow> storage \<times> event list" where
  "init W w st =
     (if \<not> container w
      then (st, [ConsoleError ''YouTube container element not found''])
      else if apiKey (opts w) = []
      then (st, [ConsoleError ''YouTube API key is required''])
      else if channelId (opts w) = [] \<and> channelUsername (opts w) = []
      then (st, [ConsoleError ''Either channelId or channelUsername is required''])
      else (case getFromCache W w (now_init W) st of
              (cachedVideos, st1, ev1) \<Rightarrow>
                if truthy cachedVideos
                then (st1, ev1 @ [RenderVideos (Cached cachedVideos)])
                else (case settle W w st1 of
                        (st2, ev2) \<Rightarrow> (st2, ev1 @ [ShowLoading, FetchVideos] @ ev2))))"

section \<open>Example runs\<close>

text \<open>
  A page, a configuration and stored texts on which the theorems below are evaluated.
  The configuration is the one of \<open>script.js\<close> (a handle, no channel identifier, one
  hour of cache) with the two fallback entries of the specification.
\<close>

definition quoted :: "string \<Rightarrow> string" where
  "quoted s = CHR 0x22 # s @ [CHR 0x22]"

definition example_options :: options where
  "example_options =
     \<lparr> apiKey = ''AIza-example-key'',
       channelId = [],
       channelUsername = ''@tarfiehplus'',
       maxResults = 9,
       containerSelector = ''#youtube-api-container'',
       cacheExpiration = 3600,
       featuredVideo = False,
       fallbackVideos =
         JArr [JStr ''abc123'', JObj [(''id'', JStr ''xyz''), (''title'', JStr ''Custom'')]] \<rparr>"

definition example_page :: "string \<Rightarrow> bool" where
  "example_page selector = (selector = ''#youtube-api-container'')"

definition example_widget :: widget where
  "example_widget = constructor example_page example_options"

text \<open>The same with both a channel identifier and a handle.\<close>

definition both_widget :: widget where
  "both_widget = constructor example_page (example_options\<lparr>channelId := ''UC0123456789''\<rparr>)"

text \<open>The same with no API key.\<close>

definition keyless_widget :: widget where
  "keyless_widget = constructor example_page (example_options\<lparr>apiKey := []\<rparr>)"

text \<open>The same with the fallback list \<open>[null]\<close>, and with no fallback list.\<close>

definition null_entry_widget :: widget where
  "null_entry_widget =
     constructor example_page (example_options\<lparr>fallbackVideos := JArr [JNull]\<rparr>)"

definition bare_widget :: widget where
  "bare_widget = constructor example_page (example_options\<lparr>fallbackVideos := JArr []\<rparr>)"

text \<open>The records \<open>createFallbackVideos()\<close> builds from the two example entries at clock \<open>now\<close>.\<close>

definition example_fallback :: "int \<Rightarrow> video list" where
  "example_fallback now =
     [\<lparr> v_id = JStr ''abc123'',
        v_title = JStr ''Video 1'',
        v_description = JStr [],
        v_thumbnail = JObj [(''url'', JStr ''https://i.ytimg.com/vi/abc123/hqdefault.jpg''),
                            (''width'', JNum 480), (''height'', JNum 360)],
        v_publishedAt = now,
        v_channelTitle = JStr ''Alaan TV Channel'',
        v_url = JStr ''https://www.youtube.com/watch?v=abc123'' \<rparr>,
      \<lparr> v_id = JStr ''xyz'',
        v_title = JStr ''Custom'',
        v_description = JStr [],
        v_thumbnail = JObj [(''url'', JStr ''https://i.ytimg.com/vi/xyz/hqdefault.jpg''),
                            (''width'', JNum 480), (''height'', JNum 360)],
        v_publishedAt = now,
        v_channelTitle = JStr ''Alaan TV Channel'',
        v_url = JStr ''https://www.youtube.com/watch?v=xyz'' \<rparr>]"

text \<open>A record as \<open>fetchVideos()\<close> builds it from a playlist item published at clock \<open>0\<close>.\<close>

definition example_video :: video where
  "example_video =
     \<lparr> v_id = JStr ''a'',
       v_title = JStr ''T'',
       v_description = JStr [],
       v_thumbnail = JObj [(''url'', JStr ''https://i.ytimg.com/vi/a/hqdefault.jpg''),
                           (''width'', JNum 480), (''height'', JNum 360)],
       v_publishedAt = 0,
       v_channelTitle = JStr ''C'',
       v_url = JUndefined \<rparr>"

text \<open>
  Three stored texts: an entry captured at clock \<open>1000\<close>, the text
  \<open>{"videos":[{"id":"a"}],"timestamp":1000}\<close>; the same without its timestamp; and a
  text that is not JSON.
\<close>

definition entry_text :: string where
  "entry_text = ''{'' @ quoted ''videos'' @ '':[{'' @ quoted ''id'' @ '':'' @ quoted ''a''
                 @ ''}],'' @ quoted ''timestamp'' @ '':1000}''"

definition entry_json :: jsval where
  "entry_json = JObj [(''videos'', JArr [JObj [(''id'', JStr ''a'')]]), (''timestamp'', JNum 1000)]"

definition undated_text :: string where
  "undated_text = ''{'' @ quoted ''videos'' @ '':[{'' @ quoted ''id'' @ '':'' @ quoted ''a'' @ ''}]}''"

definition undated_json :: jsval where
  "undated_json = JObj [(''videos'', JArr [JObj [(''id'', JStr ''a'')]])]"

definition garbage_text :: string where
  "garbage_text = ''<html>quota page</html>''"

text \<open>\<open>JSON.parse\<close> on the three texts; the examples store no other text.\<close>

definition example_parse :: "string \<Rightarrow> js_error + jsval" where
  "example_parse text =
     (if text = entry_text then Inr entry_json
      else if text = undated_text then Inr undated_json
      else Inl SyntaxError)"

text \<open>
  \<open>JSON.stringify\<close> of \<open>{videos, timestamp}\<close> for the list \<open>[example_video]\<close>, the only
  one the examples save (a \<open>Date\<close> is written in ISO notation).
\<close>

definition example_stringify :: "video list \<Rightarrow> int \<Rightarrow> string" where
  "example_stringify videos timestamp =
     (if videos = [example_video]
      then ''{'' @ quoted ''videos'' @ '':[{'' @ quoted ''id'' @ '':'' @ quoted ''a''
           @ '','' @ quoted ''title'' @ '':'' @ quoted ''T''
           @ '','' @ quoted ''description'' @ '':'' @ quoted []
           @ '','' @ quoted ''thumbnail'' @ '':{'' @ quoted ''url'' @ '':''
           @ quoted ''https://i.ytimg.com/vi/a/hqdefault.jpg''
           @ '','' @ quoted ''width'' @ '':480,'' @ quoted ''height'' @ '':360}''
           @ '','' @ quoted ''publishedAt'' @ '':'' @ quoted ''1970-01-01T00:00:00.000Z''
           @ '','' @ quoted ''channelTitle'' @ '':'' @ quoted ''C''
           @ ''}],'' @ quoted ''timestamp'' @ '':'' @ number_text timestamp @ ''}''
      else [])"

text \<open>The examples compare the clock with numbers only: no string reaches the conversion.\<close>

definition example_StringToNumber :: "string \<Rightarrow> jsnum" where
  "example_StringToNumber s = NaN"

text \<open>
  The page at clock \<open>now\<close>, with a store that throws on \<open>setItem\<close> or not, and a given
  settlement of \<open>fetchVideos()\<close> a quarter of a second later.
\<close>

definition example_world :: "int \<Rightarrow> bool \<Rightarrow> js_error + video list \<Rightarrow> world" where
  "example_world now throws outcome =
     \<lparr> JSON_parse = example_parse,
       JSON_stringify = example_stringify,
       StringToNumber = example_StringToNumber,
       setItem_throws = throws,
       now_init = now,
       now_settled = now + 250,
       fetch_outcome = outcome \<rparr>"

text \<open>A store that holds one text under the cache key of the example widget.\<close>

definition example_store :: "string \<Rightarrow> storage" where
  "example_store text = [cacheKey example_widget \<mapsto> text]"

section \<open>Values and the fallback composer\<close>

lemma fallback_video_null: "fallback_video now JNull i = Inl TypeError"
  by (simp add: fallback_video_def videoId_of_def bind_err_def)

lemma fallback_video_total: "v \<noteq> JNull \<Longrightarrow> \<exists>r. fallback_video now v i = Inr r"
  by (cases v) (simp_all add: fallback_video_def videoId_of_def videoTitle_of_def videoUrl_of_def bind_err_def)

lemma fallback_video_error: "fallback_video now v i = Inl e \<Longrightarrow> e = TypeError \<and> v = JNull"
  using fallback_video_total [of v now i] fallback_video_null [of now i]
  by (cases "v = JNull") auto

lemma fallback_video_str:
  "fallback_video now (JStr s) i =
     Inr \<lparr> v_id = JStr s,
           v_title = JStr (''Video '' @ decimal (i + 1)),
           v_description = JStr [],
           v_thumbnail = JObj [(''url'', JStr (''https://i.ytimg.com/vi/'' @ s @ ''/hqdefault.jpg'')),
                               (''width'', JNum 480), (''height'', JNum 360)],
           v_publishedAt = now,
           v_channelTitle = JStr ''Alaan TV Channel'',
           v_url = JStr (''https://www.youtube.com/watch?v='' @ s) \<rparr>"
  by (simp add: fallback_video_def videoId_of_def videoTitle_of_def videoUrl_of_def bind_err_def)

lemma fallback_video_obj:
  assumes "map_of kvs ''id'' = Some (JStr s)"
  shows "fallback_video now (JObj kvs) i =
     Inr \<lparr> v_id = JStr s,
           v_title = (case map_of kvs ''title'' of
                        Some t \<Rightarrow> if truthy t then t else JStr (''Video '' @ decimal (i + 1))
                      | None \<Rightarrow> JStr (''Video '' @ decimal (i + 1))),
           v_description = JStr [],
           v_thumbnail = JObj [(''url'', JStr (''https://i.ytimg.com/vi/'' @ s @ ''/hqdefault.jpg'')),
                               (''width'', JNum 480), (''height'', JNum 360)],
           v_publishedAt = now,
           v_channelTitle = JStr ''Alaan TV Channel'',
           v_url = (case map_of kvs ''url'' of
                      Some u \<Rightarrow> if truthy u then u else JStr (''https://www.youtube.com/watch?v='' @ s)
                    | None \<Rightarrow> JStr (''https://www.youtube.com/watch?v='' @ s)) \<rparr>"
  using assms
  by (simp add: fallback_video_def videoId_of_def videoTitle_of_def videoUrl_of_def bind_err_def
           split: option.splits)

lemma map_from_total:
  "JNull \<notin> set xs \<Longrightarrow>
     \<exists>vs. map_from now k xs = Inr vs \<and> length vs = length xs \<and>
          (\<forall>i<length xs. fallback_video now (xs ! i) (k + i) = Inr (vs ! i))"
proof (induction xs arbitrary: k)
  case Nil
  then show ?case by simp
next
  case (Cons x xs)
  from Cons.prems have "x \<noteq> JNull" and rest: "JNull \<notin> set xs" by auto
  then obtain r where r: "fallback_video now x k = Inr r"
    using fallback_video_total by blast
  from Cons.IH [OF rest, of "Suc k"] obtain rs where
    rs: "map_from now (Suc k) xs = Inr rs" "length rs = length xs"
      "\<forall>i<length xs. fallback_video now (xs ! i) (Suc k + i) = Inr (rs ! i)"
    by blast
  have "map_from now k (x # xs) = Inr (r # rs)"
    using r rs(1) by (simp add: bind_err_def)
  moreover have "\<forall>i<length (x # xs). fallback_video now ((x # xs) ! i) (k + i) = Inr ((r # rs) ! i)"
  proof (intro allI impI)
    fix i assume "i < length (x # xs)"
    then show "fallback_video now ((x # xs) ! i) (k + i) = Inr ((r # rs) ! i)"
      using r rs(3) by (cases i) auto
  qed
  ultimately show ?case using rs(2) by auto
qed

lemma map_from_null: "JNull \<in> set xs \<Longrightarrow> map_from now k xs = Inl TypeError"
proof (induction xs arbitrary: k)
  case Nil
  then show ?case by simp
next
  case (Cons x xs)
  show ?case
  proof (cases "fallback_video now x k")
    case (Inl e)
    then show ?thesis using fallback_video_error [OF Inl] by (simp add: bind_err_def)
  next
    case (Inr r)
    then have "x \<noteq> JNull" using fallback_video_null [of now k] by auto
    with Cons.prems have "JNull \<in> set xs" by auto
    from Cons.IH [OF this] show ?thesis using Inr by (simp add: bind_err_def)
  qed
qed

lemma decimal_1: "decimal (Suc 0) = ''1''"
  by (simp add: decimal.simps digit_char_def)

lemma createFallbackVideos_array:
  "fallbackVideos (opts w) = JArr xs \<Longrightarrow> createFallbackVideos w now = map_from now 0 xs"
  by (cases xs) (simp_all add: createFallbackVideos_def)


lemma createFallbackVideos_empty:
  "\<not> truthy (fallbackVideos (opts w)) \<or> fallbackVideos (opts w) = JArr [] \<Longrightarrow>
     createFallbackVideos w now = Inr []"
  by (auto simp: createFallbackVideos_def)

lemma createFallbackVideos_no_map:
  assumes "truthy (fallbackVideos (opts w))"
    and "\<forall>xs. fallbackVideos (opts w) \<noteq> JArr xs"
    and "\<forall>kvs. fallbackVideos (opts w) = JObj kvs \<longrightarrow> map_of kvs ''length'' \<noteq> Some (JNum 0)"
  shows "createFallbackVideos w now = Inl TypeError"
  using assms by (cases "fallbackVideos (opts w)") (simp_all add: createFallbackVideos_def)

section \<open>No request after the promise settles\<close>

lemma saveToCache_eq:
  "saveToCache W w videos now st =
     (if setItem_throws W
      then (st, [SetItem (cacheKey w) (JSON_stringify W videos now),
                 ConsoleError ''Error saving to cache:''])
      else (st(cacheKey w \<mapsto> JSON_stringify W videos now),
            [SetItem (cacheKey w) (JSON_stringify W videos now)]))"
  by (simp add: saveToCache_def Let_def)

lemma on_resolved_no_fetch: "FetchVideos \<notin> set (snd (snd (on_resolved W w videos st)))"
  by (simp add: on_resolved_def saveToCache_eq split: sum.splits)

lemma run_catch_no_fetch: "FetchVideos \<notin> set (snd (run_catch W w e st))"
  by (simp add: run_catch_def on_rejected_def split: sum.splits)

lemma settle_no_fetch: "FetchVideos \<notin> set (snd (settle W w st))"
proof (cases "fetch_outcome W")
  case (Inl e)
  then show ?thesis by (simp add: settle_def run_catch_no_fetch)
next
  case (Inr videos)
  obtain r st' ev where r: "on_resolved W w videos st = (r, st', ev)"
    by (cases "on_resolved W w videos st") auto
  with on_resolved_no_fetch [of W w videos st] have ev: "FetchVideos \<notin> set ev" by simp
  show ?thesis
  proof (cases r)
    case None
    with Inr r ev show ?thesis by (simp add: settle_def)
  next
    case (Some e)
    obtain st'' ev' where c: "run_catch W w e st' = (st'', ev')"
      by (cases "run_catch W w e st'") auto
    with run_catch_no_fetch [of W w e st'] have "FetchVideos \<notin> set ev'" by simp
    with Inr r ev Some c show ?thesis by (simp add: settle_def)
  qed
qed

section \<open>Claims on the fallback composer\<close>

text \<open>
  Claim C6. For a configured fallback list (an array with no \<open>null\<close> entry), the composer
  returns one record per entry, in the order of the entries: the record at position \<open>i\<close>
  is the one the callback builds from entry \<open>i\<close>. A bare string \<open>s\<close> at position \<open>i\<close>
  gets the title \<open>Video (i + 1)\<close>, so \<open>Video 1\<close> in first position, the watch URL
  \<open>https://www.youtube.com/watch?v=s\<close> and the thumbnail
  \<open>https://i.ytimg.com/vi/s/hqdefault.jpg\<close>. A structured entry with identifier \<open>s\<close>
  keeps the title it gives, gets the same thumbnail pattern, and the same URL pattern when
  it gives no URL.
\<close>

theorem createFallbackVideos_records:
  assumes "fallbackVideos (opts w) = JArr xs" and "JNull \<notin> set xs"
  shows "\<exists>vs. createFallbackVideos w now = Inr vs \<and> length vs = length xs \<and>
          (\<forall>i<length xs. fallback_video now (xs ! i) i = Inr (vs ! i)) \<and>
          (\<forall>i<length xs. \<forall>s. xs ! i = JStr s \<longrightarrow>
             v_id (vs ! i) = JStr s \<and>
             v_title (vs ! i) = JStr (''Video '' @ decimal (i + 1)) \<and>
             v_url (vs ! i) = JStr (''https://www.youtube.com/watch?v='' @ s) \<and>
             get_prop (v_thumbnail (vs ! i)) ''url'' =
               Inr (JStr (''https://i.ytimg.com/vi/'' @ s @ ''/hqdefault.jpg''))) \<and>
          (\<forall>s. xs \<noteq> [] \<and> xs ! 0 = JStr s \<longrightarrow> v_title (vs ! 0) = JStr ''Video 1'') \<and>
          (\<forall>i<length xs. \<forall>kvs s. xs ! i = JObj kvs \<and> map_of kvs ''id'' = Some (JStr s) \<longrightarrow>
             v_id (vs ! i) = JStr s \<and>
             (\<forall>t. map_of kvs ''title'' = Some (JStr t) \<and> t \<noteq> [] \<longrightarrow> v_title (vs ! i) = JStr t) \<and>
             (map_of kvs ''url'' = None \<longrightarrow>
                v_url (vs ! i) = JStr (''https://www.youtube.com/watch?v='' @ s)) \<and>
             get_prop (v_thumbnail (vs ! i)) ''url'' =
               Inr (JStr (''https://i.ytimg.com/vi/'' @ s @ ''/hqdefault.jpg'')))"
proof -
  from map_from_total [OF assms(2), of now 0] obtain vs where
    vs: "map_from now 0 xs = Inr vs" "length vs = length xs"
      "\<forall>i<length xs. fallback_video now (xs ! i) i = Inr (vs ! i)"
    by auto
  have str: "\<forall>i<length xs. \<forall>s. xs ! i = JStr s \<longrightarrow>
             v_id (vs ! i) = JStr s \<and>
             v_title (vs ! i) = JStr (''Video '' @ decimal (i + 1)) \<and>
             v_url (vs ! i) = JStr (''https://www.youtube.com/watch?v='' @ s) \<and>
             get_prop (v_thumbnail (vs ! i)) ''url'' =
               Inr (JStr (''https://i.ytimg.com/vi/'' @ s @ ''/hqdefault.jpg''))"
  proof (intro allI impI)
    fix i s assume "i < length xs" and "xs ! i = JStr s"
    with vs(3) have "fallback_video now (JStr s) i = Inr (vs ! i)" by auto
    then have "vs ! i = \<lparr> v_id = JStr s,
           v_title = JStr (''Video '' @ decimal (i + 1)),
           v_description = JStr [],
           v_thumbnail = JObj [(''url'', JStr (''https://i.ytimg.com/vi/'' @ s @ ''/hqdefault.jpg'')),
                               (''width'', JNum 480), (''height'', JNum 360)],
           v_publishedAt = now,
           v_channelTitle = JStr ''Alaan TV Channel'',
           v_url = JStr (''https://www.youtube.com/watch?v='' @ s) \<rparr>"
      by (simp add: fallback_video_str)
    then show "v_id (vs ! i) = JStr s \<and>
             v_title (vs ! i) = JStr (''Video '' @ decimal (i + 1)) \<and>
             v_url (vs ! i) = JStr (''https://www.youtube.com/watch?v='' @ s) \<and>
             get_prop (v_thumbnail (vs ! i)) ''url'' =
               Inr (JStr (''https://i.ytimg.com/vi/'' @ s @ ''/hqdefault.jpg''))"
      by simp
  qed
  have first: "\<forall>s. xs \<noteq> [] \<and> xs ! 0 = JStr s \<longrightarrow> v_title (vs ! 0) = JStr ''Video 1''"
    using str by (auto simp: decimal_1)
  have obj: "\<forall>i<length xs. \<forall>kvs s. xs ! i = JObj kvs \<and> map_of kvs ''id'' = Some (JStr s) \<longrightarrow>
             v_id (vs ! i) = JStr s \<and>
             (\<forall>t. map_of kvs ''title'' = Some (JStr t) \<and> t \<noteq> [] \<longrightarrow> v_title (vs ! i) = JStr t) \<and>
             (map_of kvs ''url'' = None \<longrightarrow>
                v_url (vs ! i) = JStr (''https://www.youtube.com/watch?v='' @ s)) \<and>
             get_prop (v_thumbnail (vs ! i)) ''url'' =
               Inr (JStr (''https://i.ytimg.com/vi/'' @ s @ ''/hqdefault.jpg''))"
  proof (intro allI impI)
    fix i kvs s assume i: "i < length xs" and e: "xs ! i = JObj kvs \<and> map_of kvs ''id'' = Some (JStr s)"
    with vs(3) have "fallback_video now (JObj kvs) i = Inr (vs ! i)" by auto
    with e have r: "vs ! i = \<lparr> v_id = JStr s,
           v_title = (case map_of kvs ''title'' of
                        Some t \<Rightarrow> if truthy t then t else JStr (''Video '' @ decimal (i + 1))
                      | None \<Rightarrow> JStr (''Video '' @ decimal (i + 1))),
           v_description = JStr [],
           v_thumbnail = JObj [(''url'', JStr (''https://i.ytimg.com/vi/'' @ s @ ''/hqdefault.jpg'')),
                               (''width'', JNum 480), (''height'', JNum 360)],
           v_publishedAt = now,
           v_channelTitle = JStr ''Alaan TV Channel'',
           v_url = (case map_of kvs ''url'' of
                      Some u \<Rightarrow> if truthy u then u else JStr (''https://www.youtube.com/watch?v='' @ s)
                    | None \<Rightarrow> JStr (''https://www.youtube.com/watch?v='' @ s)) \<rparr>"
      by (simp add: fallback_video_obj)
    show "v_id (vs ! i) = JStr s \<and>
             (\<forall>t. map_of kvs ''title'' = Some (JStr t) \<and> t \<noteq> [] \<longrightarrow> v_title (vs ! i) = JStr t) \<and>
             (map_of kvs ''url'' = None \<longrightarrow>
                v_url (vs ! i) = JStr (''https://www.youtube.com/watch?v='' @ s)) \<and>
             get_prop (v_thumbnail (vs ! i)) ''url'' =
               Inr (JStr (''https://i.ytimg.com/vi/'' @ s @ ''/hqdefault.jpg''))"
      by (simp add: r)
  qed
  have "createFallbackVideos w now = Inr vs"
    using vs(1) assms(1) by (simp add: createFallbackVideos_array)
  with vs(2,3) str first obj show ?thesis by blast
qed

text \<open>The two entries of the specification: \<open>"abc123"\<close> and \<open>{id: "xyz", title: "Custom"}\<close>.\<close>

lemma example_fallback_entries:
  "fallbackVideos (opts example_widget) =
     JArr [JStr ''abc123'', JObj [(''id'', JStr ''xyz''), (''title'', JStr ''Custom'')]]"
  by (simp add: example_widget_def constructor_def example_options_def)

lemma example_fallback_value: "createFallbackVideos example_widget now = Inr (example_fallback now)"
  by (simp add: createFallbackVideos_def example_fallback_entries bind_err_def fallback_video_str
      fallback_video_obj example_fallback_def decimal.simps digit_char_def)

theorem createFallbackVideos_records_witness:
  "fallbackVideos (opts example_widget) =
     JArr [JStr ''abc123'', JObj [(''id'', JStr ''xyz''), (''title'', JStr ''Custom'')]] \<and>
   JNull \<notin> set [JStr ''abc123'', JObj [(''id'', JStr ''xyz''), (''title'', JStr ''Custom'')]] \<and>
   createFallbackVideos example_widget 7 = Inr (example_fallback 7) \<and>
   length (example_fallback 7) = 2 \<and>
   v_title (example_fallback 7 ! 0) = JStr ''Video 1'' \<and>
   v_url (example_fallback 7 ! 0) = JStr ''https://www.youtube.com/watch?v=abc123'' \<and>
   get_prop (v_thumbnail (example_fallback 7 ! 0)) ''url'' =
     Inr (JStr ''https://i.ytimg.com/vi/abc123/hqdefault.jpg'') \<and>
   v_title (example_fallback 7 ! 1) = JStr ''Custom'' \<and>
   v_url (example_fallback 7 ! 1) = JStr ''https://www.youtube.com/watch?v=xyz'' \<and>
   get_prop (v_thumbnail (example_fallback 7 ! 1)) ''url'' =
     Inr (JStr ''https://i.ytimg.com/vi/xyz/hqdefault.jpg'')"
proof -
  have entries: "fallbackVideos (opts example_widget) =
     JArr [JStr ''abc123'', JObj [(''id'', JStr ''xyz''), (''title'', JStr ''Custom'')]]"
    by (rule example_fallback_entries)
  have no_null: "JNull \<notin> set [JStr ''abc123'', JObj [(''id'', JStr ''xyz''), (''title'', JStr ''Custom'')]]"
    by simp
  from createFallbackVideos_records [OF entries no_null, of 7] obtain vs where
    vs: "createFallbackVideos example_widget 7 = Inr vs"
      "v_title (vs ! 0) = JStr ''Video 1''"
      "v_url (vs ! 0) = JStr ''https://www.youtube.com/watch?v=abc123''"
      "get_prop (v_thumbnail (vs ! 0)) ''url'' = Inr (JStr ''https://i.ytimg.com/vi/abc123/hqdefault.jpg'')"
      "v_title (vs ! 1) = JStr ''Custom''"
      "v_url (vs ! 1) = JStr ''https://www.youtube.com/watch?v=xyz''"
      "get_prop (v_thumbnail (vs ! 1)) ''url'' = Inr (JStr ''https://i.ytimg.com/vi/xyz/hqdefault.jpg'')"
      "length vs = 2"
    by fastforce
  from vs(1) have "vs = example_fallback 7" by (simp add: example_fallback_value)
  with vs entries no_null show ?thesis by simp
qed

text \<open>
  Claim C7, as amended. The composer makes no request: once the promise of
  \<open>fetchVideos()\<close> has settled, the handlers in which the composer runs add no call of
  \<open>fetchVideos()\<close>. It returns the empty list when the fallback list is missing (falsy) or
  empty, and it does not fail on an array without a \<open>null\<close> entry: it returns one record
  per entry, whatever the entries are. It throws a TypeError on an array with a \<open>null\<close>
  entry, and on a truthy value that is not an array (unless it is an object whose
  \<open>length\<close> is \<open>0\<close>).
\<close>

theorem createFallbackVideos_failure_modes:
  "(\<not> truthy (fallbackVideos (opts w)) \<or> fallbackVideos (opts w) = JArr [] \<longrightarrow>
      createFallbackVideos w now = Inr []) \<and>
   (\<forall>xs. fallbackVideos (opts w) = JArr xs \<and> JNull \<notin> set xs \<longrightarrow>
      (\<exists>vs. createFallbackVideos w now = Inr vs \<and> length vs = length xs)) \<and>
   (\<forall>xs. fallbackVideos (opts w) = JArr xs \<and> JNull \<in> set xs \<longrightarrow>
      createFallbackVideos w now = Inl TypeError) \<and>
   (truthy (fallbackVideos (opts w)) \<and> (\<forall>xs. fallbackVideos (opts w) \<noteq> JArr xs) \<and>
    (\<forall>kvs. fallbackVideos (opts w) = JObj kvs \<longrightarrow> map_of kvs ''length'' \<noteq> Some (JNum 0)) \<longrightarrow>
      createFallbackVideos w now = Inl TypeError) \<and>
   (\<forall>W st. FetchVideos \<notin> set (snd (settle W w st)))"
proof (intro conjI allI impI)
  assume "\<not> truthy (fallbackVideos (opts w)) \<or> fallbackVideos (opts w) = JArr []"
  then show "createFallbackVideos w now = Inr []" by (rule createFallbackVideos_empty)
next
  fix xs assume "fallbackVideos (opts w) = JArr xs \<and> JNull \<notin> set xs"
  then show "\<exists>vs. createFallbackVideos w now = Inr vs \<and> length vs = length xs"
    using map_from_total [of xs now 0] by (auto simp: createFallbackVideos_array)
next
  fix xs assume "fallbackVideos (opts w) = JArr xs \<and> JNull \<in> set xs"
  then show "createFallbackVideos w now = Inl TypeError"
    using map_from_null [of xs now 0] by (auto simp: createFallbackVideos_array)
next
  assume "truthy (fallbackVideos (opts w)) \<and> (\<forall>xs. fallbackVideos (opts w) \<noteq> JArr xs) \<and>
    (\<forall>kvs. fallbackVideos (opts w) = JObj kvs \<longrightarrow> map_of kvs ''length'' \<noteq> Some (JNum 0))"
  then show "createFallbackVideos w now = Inl TypeError"
    using createFallbackVideos_no_map by blast
next
  fix W st show "FetchVideos \<notin> set (snd (settle W w st))" by (rule settle_no_fetch)
qed

text \<open>The example configuration with an empty fallback list, and with the list \<open>[null]\<close>.\<close>

theorem createFallbackVideos_failure_modes_witness:
  "fallbackVideos (opts bare_widget) = JArr [] \<and>
   createFallbackVideos bare_widget 7 = Inr [] \<and>
   fallbackVideos (opts null_entry_widget) = JArr [JNull] \<and> JNull \<in> set [JNull] \<and>
   createFallbackVideos null_entry_widget 7 = Inl TypeError \<and>
   FetchVideos \<notin> set (snd (settle (example_world 0 False (Inr [])) bare_widget Map.empty))"
proof -
  have b: "fallbackVideos (opts bare_widget) = JArr []"
    by (simp add: bare_widget_def constructor_def example_options_def)
  have n: "fallbackVideos (opts null_entry_widget) = JArr [JNull]"
    by (simp add: null_entry_widget_def constructor_def example_options_def)
  from createFallbackVideos_failure_modes [of bare_widget 7] b
  have "createFallbackVideos bare_widget 7 = Inr []"
    and "FetchVideos \<notin> set (snd (settle (example_world 0 False (Inr [])) bare_widget Map.empty))"
    by simp_all
  moreover from createFallbackVideos_failure_modes [of null_entry_widget 7] n
  have "createFallbackVideos null_entry_widget 7 = Inl TypeError" by simp
  ultimately show ?thesis using b n by simp
qed

text \<open>
  The claim as stated fails on the list \<open>[null]\<close>: \<open>typeof null\<close> is \<open>'object'\<close>, so the
  callback reads \<open>null.id\<close> and throws; the result is an error, not the empty list.
\<close>

theorem createFallbackVideos_null_entry_counterexample:
  "fallbackVideos (opts null_entry_widget) = JArr [JNull] \<and>
   createFallbackVideos null_entry_widget 7 = Inl TypeError \<and>
   createFallbackVideos null_entry_widget 7 \<noteq> Inr []"
  by (simp add: null_entry_widget_def constructor_def example_options_def
      createFallbackVideos_def fallback_video_null bind_err_def)


section \<open>The cache lookup\<close>


lemma getFromCache_empty_text:
  "st (cacheKey w) = Some [] \<Longrightarrow> getFromCache W w now st = (JNull, st, [GetItem (cacheKey w)])"
  by (simp add: getFromCache_def)

lemma getFromCache_throws:
  assumes "st (cacheKey w) = Some cacheData" and "cacheData \<noteq> []"
    and "(\<exists>e. JSON_parse W cacheData = Inl e) \<or> JSON_parse W cacheData = Inr JNull"
  shows "getFromCache W w now st =
           (JNull, st, [GetItem (cacheKey w), ConsoleError ''Error getting from cache:''])"
  using assms by (auto simp: getFromCache_def bind_err_def)

lemma getFromCache_entry:
  assumes "st (cacheKey w) = Some cacheData" and "cacheData \<noteq> []"
    and "JSON_parse W cacheData = Inr (JObj kvs)"
    and "map_of kvs ''timestamp'' = Some (JNum capturedAt)"
  shows "getFromCache W w now st =
           (if capturedAt + cacheExpiration (opts w) * 1000 < now
            then (JNull, st(cacheKey w := None), [GetItem (cacheKey w), RemoveItem (cacheKey w)])
            else (case map_of kvs ''videos'' of Some v \<Rightarrow> v | None \<Rightarrow> JUndefined,
                  st, [GetItem (cacheKey w)]))"
  using assms by (simp add: getFromCache_def bind_err_def Let_def js_gt_def)

lemma getFromCache_undated:
  assumes "st (cacheKey w) = Some cacheData" and "cacheData \<noteq> []"
    and "JSON_parse W cacheData = Inr d"
    and "get_prop d ''videos'' = Inr videos" and "get_prop d ''timestamp'' = Inr JUndefined"
  shows "getFromCache W w now st = (videos, st, [GetItem (cacheKey w)])"
  using assms by (simp add: getFromCache_def bind_err_def Let_def js_gt_def)



lemma getFromCache_first_event:
  "\<exists>rest. snd (snd (getFromCache W w now st)) = GetItem (cacheKey w) # rest"
  by (simp add: getFromCache_def Let_def split: option.splits sum.splits prod.splits)

section \<open>The handlers\<close>





lemma init_valid:
  assumes "container w" and "apiKey (opts w) \<noteq> []"
    and "channelId (opts w) \<noteq> [] \<or> channelUsername (opts w) \<noteq> []"
    and "getFromCache W w (now_init W) st = (c, st1, ev1)"
  shows "init W w st =
           (if truthy c then (st1, ev1 @ [RenderVideos (Cached c)])
            else (fst (settle W w st1), ev1 @ [ShowLoading, FetchVideos] @ snd (settle W w st1)))"
  using assms by (auto simp: init_def split: prod.splits)

lemma init_invalid:
  assumes "\<not> container w \<or> apiKey (opts w) = [] \<or>
           (channelId (opts w) = [] \<and> channelUsername (opts w) = [])"
  shows "\<exists>msg. init W w st = (st, [ConsoleError msg])"
  using assms by (auto simp: init_def)




section \<open>Facts about the examples\<close>

lemma example_widget_fields:
  "container example_widget"
  "apiKey (opts example_widget) = ''AIza-example-key''"
  "channelId (opts example_widget) = []"
  "channelUsername (opts example_widget) = ''@tarfiehplus''"
  "cacheExpiration (opts example_widget) = 3600"
  by (simp_all add: example_widget_def constructor_def example_options_def example_page_def
      or_str_def)

lemma example_world_fields:
  "JSON_parse (example_world now throws outcome) = example_parse"
  "JSON_stringify (example_world now throws outcome) = example_stringify"
  "StringToNumber (example_world now throws outcome) = example_StringToNumber"
  "setItem_throws (example_world now throws outcome) = throws"
  "now_init (example_world now throws outcome) = now"
  "now_settled (example_world now throws outcome) = now + 250"
  "fetch_outcome (example_world now throws outcome) = outcome"
  by (simp_all add: example_world_def)

lemma example_texts:
  "entry_text \<noteq> []" "undated_text \<noteq> []" "garbage_text \<noteq> []"
  "example_parse entry_text = Inr entry_json"
  "example_parse undated_text = Inr undated_json"
  "example_parse garbage_text = Inl SyntaxError"
  by (simp_all add: example_parse_def entry_text_def undated_text_def garbage_text_def quoted_def)

lemma example_store_key: "example_store text (cacheKey example_widget) = Some text"
  by (simp add: example_store_def)

section \<open>Claims on the cache lookup\<close>

text \<open>
  Claim C1, as amended. For a stored entry with a numeric capture timestamp, the lookup
  compares with \<open>Date.now() > timestamp + cacheExpiration * 1000\<close>: when the capture
  timestamp plus the TTL is strictly less than the current time, it returns \<open>null\<close> and
  removes the entry before returning; otherwise, so also when the two are equal, it returns
  the stored records and leaves the entry in place.
\<close>

theorem getFromCache_expiry:
  assumes "st (cacheKey w) = Some cacheData" and "cacheData \<noteq> []"
    and "JSON_parse W cacheData = Inr (JObj kvs)"
    and "map_of kvs ''videos'' = Some records"
    and "map_of kvs ''timestamp'' = Some (JNum capturedAt)"
  shows "(capturedAt + cacheExpiration (opts w) * 1000 < now \<longrightarrow>
            getFromCache W w now st =
              (JNull, st(cacheKey w := None), [GetItem (cacheKey w), RemoveItem (cacheKey w)])) \<and>
         (now \<le> capturedAt + cacheExpiration (opts w) * 1000 \<longrightarrow>
            getFromCache W w now st = (records, st, [GetItem (cacheKey w)]))"
  using getFromCache_entry [of st w cacheData W kvs capturedAt now] assms by simp

text \<open>
  The entry captured at clock \<open>1000\<close> with one hour of cache, read one millisecond
  after it expires and one millisecond before.
\<close>

theorem getFromCache_expiry_witness:
  "example_store entry_text (cacheKey example_widget) = Some entry_text \<and>
   entry_text \<noteq> [] \<and>
   JSON_parse (example_world 3601001 False (Inr [])) entry_text = Inr entry_json \<and>
   1000 + cacheExpiration (opts example_widget) * 1000 < (3601001 :: int) \<and>
   getFromCache (example_world 3601001 False (Inr [])) example_widget 3601001
       (example_store entry_text) =
     (JNull, (example_store entry_text)(cacheKey example_widget := None),
      [GetItem (cacheKey example_widget), RemoveItem (cacheKey example_widget)]) \<and>
   (3600999 :: int) \<le> 1000 + cacheExpiration (opts example_widget) * 1000 \<and>
   getFromCache (example_world 3601001 False (Inr [])) example_widget 3600999
       (example_store entry_text) =
     (JArr [JObj [(''id'', JStr ''a'')]], example_store entry_text,
      [GetItem (cacheKey example_widget)])"
  using getFromCache_expiry [of "example_store entry_text" example_widget entry_text
      "example_world 3601001 False (Inr [])"
      "[(''videos'', JArr [JObj [(''id'', JStr ''a'')]]), (''timestamp'', JNum 1000)]"
      "JArr [JObj [(''id'', JStr ''a'')]]" 1000 3601001]
    getFromCache_expiry [of "example_store entry_text" example_widget entry_text
      "example_world 3601001 False (Inr [])"
      "[(''videos'', JArr [JObj [(''id'', JStr ''a'')]]), (''timestamp'', JNum 1000)]"
      "JArr [JObj [(''id'', JStr ''a'')]]" 1000 3600999]
  by (simp add: example_store_key example_texts example_world_fields example_widget_fields
      entry_json_def)

text \<open>
  The claim as stated fails when the capture timestamp plus the TTL equals the current
  time: \<open>1000 + 3600 * 1000 \<le> 3601000\<close>, yet the lookup returns the records and the
  entry stays in the store.
\<close>

theorem getFromCache_boundary_counterexample:
  "1000 + cacheExpiration (opts example_widget) * 1000 \<le> (3601000 :: int) \<and>
   example_store entry_text (cacheKey example_widget) = Some entry_text \<and>
   JSON_parse (example_world 3601000 False (Inr [])) entry_text =
     Inr (JObj [(''videos'', JArr [JObj [(''id'', JStr ''a'')]]), (''timestamp'', JNum 1000)]) \<and>
   getFromCache (example_world 3601000 False (Inr [])) example_widget 3601000
       (example_store entry_text) =
     (JArr [JObj [(''id'', JStr ''a'')]], example_store entry_text,
      [GetItem (cacheKey example_widget)])"
  by (simp add: getFromCache_def bind_err_def js_gt_def example_store_key example_texts
      example_world_fields example_widget_fields entry_json_def)

text \<open>
  Claim C10, as amended. When the stored text is empty, or \<open>JSON.parse\<close> throws on it, or
  it parses to \<open>null\<close>, or to a value with neither a \<open>videos\<close> nor a \<open>timestamp\<close>
  property, the lookup does not throw (it returns a value in every case), what it returns
  is falsy, the store is left as it was and no \<open>removeItem\<close> is called; with a valid
  configuration \<open>init()\<close> then shows the loading state and calls \<open>fetchVideos()\<close>.
\<close>

theorem getFromCache_unreadable:
  assumes "st (cacheKey w) = Some cacheData"
    and "cacheData = [] \<or> (\<exists>e. JSON_parse W cacheData = Inl e) \<or>
         JSON_parse W cacheData = Inr JNull \<or>
         (\<exists>d. JSON_parse W cacheData = Inr d \<and> get_prop d ''videos'' = Inr JUndefined \<and>
              get_prop d ''timestamp'' = Inr JUndefined)"
  shows "\<not> truthy (fst (getFromCache W w now st)) \<and>
         fst (snd (getFromCache W w now st)) = st \<and>
         RemoveItem (cacheKey w) \<notin> set (snd (snd (getFromCache W w now st))) \<and>
         (container w \<and> apiKey (opts w) \<noteq> [] \<and>
          (channelId (opts w) \<noteq> [] \<or> channelUsername (opts w) \<noteq> []) \<longrightarrow>
            (\<exists>ev rest. snd (init W w st) = ev @ [ShowLoading, FetchVideos] @ rest \<and>
                        set ev \<subseteq> {GetItem (cacheKey w),
                                   ConsoleError ''Error getting from cache:''}))"
proof -
  have look: "\<And>t. \<exists>ev. getFromCache W w t st = (JNull, st, ev) \<and>
                  set ev \<subseteq> {GetItem (cacheKey w), ConsoleError ''Error getting from cache:''} \<or>
                getFromCache W w t st = (JUndefined, st, [GetItem (cacheKey w)])"
  proof -
    fix t
    show "\<exists>ev. getFromCache W w t st = (JNull, st, ev) \<and>
                  set ev \<subseteq> {GetItem (cacheKey w), ConsoleError ''Error getting from cache:''} \<or>
                getFromCache W w t st = (JUndefined, st, [GetItem (cacheKey w)])"
    proof (cases "cacheData = []")
      case True
      with assms(1) show ?thesis by (simp add: getFromCache_empty_text)
    next
      case False
      with assms(2) consider
          "(\<exists>e. JSON_parse W cacheData = Inl e) \<or> JSON_parse W cacheData = Inr JNull"
        | d where "JSON_parse W cacheData = Inr d" "get_prop d ''videos'' = Inr JUndefined"
            "get_prop d ''timestamp'' = Inr JUndefined"
        by blast
      then show ?thesis
      proof cases
        case 1
        with assms(1) False show ?thesis by (simp add: getFromCache_throws)
      next
        case 2
        with assms(1) False show ?thesis by (simp add: getFromCache_undated)
      qed
    qed
  qed
  have a: "\<not> truthy (fst (getFromCache W w now st)) \<and>
         fst (snd (getFromCache W w now st)) = st \<and>
         RemoveItem (cacheKey w) \<notin> set (snd (snd (getFromCache W w now st)))"
    using look [of now] by auto
  have b: "\<exists>ev rest. snd (init W w st) = ev @ [ShowLoading, FetchVideos] @ rest \<and>
                        set ev \<subseteq> {GetItem (cacheKey w),
                                   ConsoleError ''Error getting from cache:''}"
    if valid: "container w \<and> apiKey (opts w) \<noteq> [] \<and>
          (channelId (opts w) \<noteq> [] \<or> channelUsername (opts w) \<noteq> [])"
  proof -
    obtain c ev where g: "getFromCache W w (now_init W) st = (c, st, ev)" "\<not> truthy c"
      "set ev \<subseteq> {GetItem (cacheKey w), ConsoleError ''Error getting from cache:''}"
      using look [of "now_init W"] by auto
    from valid g(1) have "init W w st =
           (if truthy c then (st, ev @ [RenderVideos (Cached c)])
            else (fst (settle W w st), ev @ [ShowLoading, FetchVideos] @ snd (settle W w st)))"
      by (intro init_valid) auto
    with g(2,3) show ?thesis by auto
  qed
  from a b show ?thesis by blast
qed

text \<open>A stored text that is not JSON, in the example page with the example configuration.\<close>

theorem getFromCache_unreadable_witness:
  "example_store garbage_text (cacheKey example_widget) = Some garbage_text \<and>
   JSON_parse (example_world 5000 False (Inr [])) garbage_text = Inl SyntaxError \<and>
   \<not> truthy (fst (getFromCache (example_world 5000 False (Inr [])) example_widget 5000
                  (example_store garbage_text))) \<and>
   fst (snd (getFromCache (example_world 5000 False (Inr [])) example_widget 5000
                  (example_store garbage_text))) = example_store garbage_text \<and>
   container example_widget \<and> apiKey (opts example_widget) \<noteq> [] \<and>
   channelUsername (opts example_widget) \<noteq> [] \<and>
   (\<exists>ev rest. snd (init (example_world 5000 False (Inr [])) example_widget
                     (example_store garbage_text)) = ev @ [ShowLoading, FetchVideos] @ rest)"
proof -
  have stored: "example_store garbage_text (cacheKey example_widget) = Some garbage_text"
    by (rule example_store_key)
  have broken: "JSON_parse (example_world 5000 False (Inr [])) garbage_text = Inl SyntaxError"
    by (simp add: example_world_fields example_texts)
  have valid: "container example_widget \<and> apiKey (opts example_widget) \<noteq> [] \<and>
      channelUsername (opts example_widget) \<noteq> []"
    by (simp add: example_widget_fields)
  from broken have unreadable: "garbage_text = [] \<or>
      (\<exists>e. JSON_parse (example_world 5000 False (Inr [])) garbage_text = Inl e) \<or>
      JSON_parse (example_world 5000 False (Inr [])) garbage_text = Inr JNull \<or>
      (\<exists>d. JSON_parse (example_world 5000 False (Inr [])) garbage_text = Inr d \<and>
           get_prop d ''videos'' = Inr JUndefined \<and> get_prop d ''timestamp'' = Inr JUndefined)"
    by simp
  from getFromCache_unreadable [where st = "example_store garbage_text" and w = example_widget
      and cacheData = garbage_text and W = "example_world 5000 False (Inr [])" and now = 5000,
      OF stored unreadable] stored broken valid
  show ?thesis by blast
qed

text \<open>
  The claim as stated fails on a stored text that parses but is not a
  \<open>{videos, timestamp}\<close> structure, here \<open>{"videos":[{"id":"a"}]}\<close>: the missing
  timestamp makes the expiry \<open>NaN\<close>, the comparison false, and the lookup returns the
  records as a hit.
\<close>

theorem getFromCache_undated_counterexample:
  "example_store undated_text (cacheKey example_widget) = Some undated_text \<and>
   JSON_parse (example_world 5000 False (Inr [])) undated_text =
     Inr (JObj [(''videos'', JArr [JObj [(''id'', JStr ''a'')]])]) \<and>
   get_prop (JObj [(''videos'', JArr [JObj [(''id'', JStr ''a'')]])]) ''timestamp'' = Inr JUndefined \<and>
   fst (getFromCache (example_world 5000 False (Inr [])) example_widget 5000
          (example_store undated_text)) = JArr [JObj [(''id'', JStr ''a'')]] \<and>
   truthy (fst (getFromCache (example_world 5000 False (Inr [])) example_widget 5000
          (example_store undated_text))) \<and>
   init (example_world 5000 False (Inr [])) example_widget (example_store undated_text) =
     (example_store undated_text,
      [GetItem (cacheKey example_widget),
       RenderVideos (Cached (JArr [JObj [(''id'', JStr ''a'')]]))])"
  by (simp add: init_def getFromCache_def bind_err_def js_gt_def example_store_key example_texts
      example_world_fields example_widget_fields undated_json_def)


section \<open>Claims on the pipeline\<close>


text \<open>
  Claim C2, as amended. \<open>init()\<close> checks the configuration before it reads the cache or
  calls \<open>fetchVideos()\<close>: the render target must be found, the API key must be present,
  and at least one of channel identifier and channel handle must be present. When one of
  these fails, the run is a single \<open>console.error\<close>: the store is untouched, nothing is
  rendered and no request is made. When all three hold (also when both the identifier and
  the handle are given), the run goes on and its first effect is the cache read.
\<close>

theorem init_validates_first:
  "(\<not> container w \<or> apiKey (opts w) = [] \<or>
      (channelId (opts w) = [] \<and> channelUsername (opts w) = []) \<longrightarrow>
        (\<exists>msg. init W w st = (st, [ConsoleError msg]))) \<and>
   (container w \<and> apiKey (opts w) \<noteq> [] \<and>
      (channelId (opts w) \<noteq> [] \<or> channelUsername (opts w) \<noteq> []) \<longrightarrow>
        (\<exists>rest. snd (init W w st) = GetItem (cacheKey w) # rest))"
proof (intro conjI impI)
  assume "\<not> container w \<or> apiKey (opts w) = [] \<or>
      (channelId (opts w) = [] \<and> channelUsername (opts w) = [])"
  then show "\<exists>msg. init W w st = (st, [ConsoleError msg])" by (rule init_invalid)
next
  assume valid: "container w \<and> apiKey (opts w) \<noteq> [] \<and>
      (channelId (opts w) \<noteq> [] \<or> channelUsername (opts w) \<noteq> [])"
  obtain c st1 ev1 where g: "getFromCache W w (now_init W) st = (c, st1, ev1)"
    by (cases "getFromCache W w (now_init W) st") auto
  with getFromCache_first_event [of W w "now_init W" st]
  obtain rest where "ev1 = GetItem (cacheKey w) # rest" by auto
  moreover from valid g have "init W w st =
           (if truthy c then (st1, ev1 @ [RenderVideos (Cached c)])
            else (fst (settle W w st1), ev1 @ [ShowLoading, FetchVideos] @ snd (settle W w st1)))"
    by (intro init_valid) auto
  ultimately show "\<exists>rest. snd (init W w st) = GetItem (cacheKey w) # rest" by simp
qed

text \<open>The example configuration without its API key, and with it, on an empty store.\<close>

theorem init_validates_first_witness:
  "apiKey (opts keyless_widget) = [] \<and>
   init (example_world 5000 False (Inr [example_video])) keyless_widget Map.empty =
     (Map.empty, [ConsoleError ''YouTube API key is required'']) \<and>
   container example_widget \<and> apiKey (opts example_widget) \<noteq> [] \<and>
   channelUsername (opts example_widget) \<noteq> [] \<and>
   hd (snd (init (example_world 5000 False (Inr [example_video])) example_widget Map.empty)) =
     GetItem (cacheKey example_widget)"
proof -
  have k: "apiKey (opts keyless_widget) = []" "container keyless_widget"
    by (simp_all add: keyless_widget_def constructor_def example_options_def example_page_def)
  from init_validates_first [of keyless_widget "example_world 5000 False (Inr [example_video])"
      Map.empty] k(1)
  obtain msg where "init (example_world 5000 False (Inr [example_video])) keyless_widget Map.empty =
     (Map.empty, [ConsoleError msg])" by blast
  moreover have "init (example_world 5000 False (Inr [example_video])) keyless_widget Map.empty =
     (Map.empty, [ConsoleError ''YouTube API key is required''])"
    using k by (simp add: init_def)
  moreover have v: "container example_widget \<and> apiKey (opts example_widget) \<noteq> [] \<and>
      channelUsername (opts example_widget) \<noteq> []"
    by (simp add: example_widget_fields)
  moreover from init_validates_first [of example_widget
      "example_world 5000 False (Inr [example_video])" Map.empty] v
  have "hd (snd (init (example_world 5000 False (Inr [example_video])) example_widget Map.empty)) =
     GetItem (cacheKey example_widget)" by auto
  ultimately show ?thesis using k(1) by simp
qed

text \<open>
  The claim as stated fails on a configuration with both a channel identifier and a
  handle: it is not one with exactly one of the two, yet \<open>init()\<close> does not abort; it reads
  the cache, calls \<open>fetchVideos()\<close> and renders.
\<close>

theorem init_both_channels_counterexample:
  "channelId (opts both_widget) \<noteq> [] \<and> channelUsername (opts both_widget) \<noteq> [] \<and>
   snd (init (example_world 5000 False (Inr [example_video])) both_widget Map.empty) =
     [GetItem (cacheKey both_widget), ShowLoading, FetchVideos,
      SetItem (cacheKey both_widget) (example_stringify [example_video] 5250),
      RenderVideos (Records [example_video])]"
  by (simp add: init_def getFromCache_def settle_def on_resolved_def saveToCache_eq
      example_world_fields both_widget_def constructor_def example_options_def example_page_def)



















end
